theory Spec2Isabelle
  imports Complex_Main "HOL-Library.Multiset"
begin

section \<open>Python values\<close>

text \<open>
  The four analyzers of \<^verbatim>\<open>setup.py\<close> inspect their arguments with \<^verbatim>\<open>isinstance\<close>, so the
  model works on a datatype of the Python values they can tell apart. Dictionary keys are
  hashable values; a dictionary is an association list in insertion order (the order
  \<^verbatim>\<open>.items()\<close> iterates in). A Python string is the list of its code points; \<open>py\<close> gives
  the Python string of an ASCII literal. Seconds, thresholds and scores are Python floats
  in the source and exact reals here.
\<close>

type_synonym str = "nat list"

definition py :: "string \<Rightarrow> str" where
  "py s = map of_char s"

datatype pykey = KNone | KInt int | KStr str

datatype pyval =
    VNone
  | VInt int
  | VStr str
  | VList "pyval list"
  | VDict "(pykey \<times> pyval) list"

datatype exn = NameError | TypeError | ValueError | StatisticsError | ReError

text \<open>Truth value of an object, as \<^verbatim>\<open>if not timestamps\<close> and \<^verbatim>\<open>if not posts\<close> read it.\<close>

fun truthy :: "pyval \<Rightarrow> bool" where
  "truthy VNone = False"
| "truthy (VInt i) = (i \<noteq> 0)"
| "truthy (VStr s) = (s \<noteq> [])"
| "truthy (VList vs) = (vs \<noteq> [])"
| "truthy (VDict kvs) = (kvs \<noteq> [])"

fun is_str :: "pyval \<Rightarrow> bool" where
  "is_str (VStr s) = True"
| "is_str _ = False"

fun the_str :: "pyval \<Rightarrow> str" where
  "the_str (VStr s) = s"
| "the_str _ = []"

section \<open>Names the module binds\<close>

text \<open>
  \<^verbatim>\<open>setup.py\<close> imports \<^verbatim>\<open>re\<close>, \<^verbatim>\<open>statistics\<close> and \<^verbatim>\<open>defaultdict\<close> at module level (lines 1-9).
  The names \<^verbatim>\<open>nx\<close>, \<^verbatim>\<open>TextBlob\<close> and \<^verbatim>\<open>parser\<close> are imported inside the function
  \<^verbatim>\<open>install_dependencies\<close> (lines 14-16) only, so they are local to that function and the
  analyzers, which read them as globals, find them unbound: evaluating the name raises
  \<^verbatim>\<open>NameError\<close>. Each analyzer of the model therefore takes the binding of the name it reads:
  \<open>None\<close> is the module as written, \<open>Some\<close> a module in which the name is bound to the
  library. A bound collaborator follows its interface: \<^verbatim>\<open>parser.parse\<close> returns an
  instant (seconds on one time line) or raises \<^verbatim>\<open>ValueError\<close>;
  \<^verbatim>\<open>TextBlob(post).sentiment.polarity\<close> returns a score or raises.
\<close>

type_synonym parser_binding = "(str \<Rightarrow> real option) option"

type_synonym textblob_binding = "(str \<Rightarrow> real option) option"

record 'g nx_module =
  nx_Graph :: "'g"
  nx_add_edge :: "'g \<Rightarrow> str \<Rightarrow> str \<Rightarrow> 'g option"
  nx_connected_components :: "'g \<Rightarrow> str list list"

text \<open>The module as written: none of the three names is bound.\<close>

definition module_parser :: parser_binding where
  "module_parser = None"

definition module_TextBlob :: textblob_binding where
  "module_TextBlob = None"

definition module_nx :: "unit nx_module option" where
  "module_nx = None"

section \<open>detect\_abnormal\_posting (lines 31-79)\<close>

text \<open>\<^verbatim>\<open>parser.parse(ts)\<close>, line 51.\<close>

definition parser_parse :: "parser_binding \<Rightarrow> str \<Rightarrow> exn + real" where
  "parser_parse parser ts =
     (case parser of
        None \<Rightarrow> Inl NameError
      | Some parse \<Rightarrow> (case parse ts of None \<Rightarrow> Inl ValueError | Some t \<Rightarrow> Inr t))"

text \<open>Lines 44-46: the first entry that is not a string raises \<^verbatim>\<open>TypeError\<close>.\<close>

fun check_strings :: "pyval list \<Rightarrow> exn + str list" where
  "check_strings [] = Inr []"
| "check_strings (VStr s # vs) =
     (case check_strings vs of Inl e \<Rightarrow> Inl e | Inr ss \<Rightarrow> Inr (s # ss))"
| "check_strings (v # vs) = Inl TypeError"

text \<open>
  Lines 48-54: a \<^verbatim>\<open>ValueError\<close> skips the entry, any other exception leaves the loop
  (and the \<^verbatim>\<open>try\<close> block of the account).
\<close>

fun parse_timestamps :: "parser_binding \<Rightarrow> str list \<Rightarrow> real list \<Rightarrow> exn + real list" where
  "parse_timestamps parser [] parsed_timestamps = Inr parsed_timestamps"
| "parse_timestamps parser (ts # tss) parsed_timestamps =
     (case parser_parse parser ts of
        Inr t \<Rightarrow> parse_timestamps parser tss (parsed_timestamps @ [t])
      | Inl ValueError \<Rightarrow> parse_timestamps parser tss parsed_timestamps
      | Inl e \<Rightarrow> Inl e)"

text \<open>Line 60: \<^verbatim>\<open>timestamps[i] - timestamps[i-1]\<close> for \<open>i\<close> in \<^verbatim>\<open>range(1, len(timestamps))\<close>, in seconds.\<close>

definition intervals_of :: "real list \<Rightarrow> real list" where
  "intervals_of timestamps = map (\<lambda>i. timestamps ! i - timestamps ! (i - 1)) [1..<length timestamps]"

text \<open>
  \<^verbatim>\<open>statistics.stdev\<close>: the square root of the sample variance; fewer than two data points
  raise \<^verbatim>\<open>StatisticsError\<close>.
\<close>

definition mean :: "real list \<Rightarrow> real" where
  "mean xs = sum_list xs / real (length xs)"

definition statistics_stdev :: "real list \<Rightarrow> exn + real" where
  "statistics_stdev xs =
     (if length xs < 2 then Inl StatisticsError
      else Inr (sqrt (sum_list (map (\<lambda>x. (x - mean xs)\<^sup>2) xs) / real (length xs - 1))))"

text \<open>Lines 65-66 and 72-73: append unless present.\<close>

definition append_once :: "pykey \<Rightarrow> pykey list \<Rightarrow> pykey list" where
  "append_once account suspicious_accounts =
     (if account \<in> set suspicious_accounts then suspicious_accounts
      else suspicious_accounts @ [account])"

text \<open>Lines 70-73: the loop of the burst rule.\<close>

fun burst_loop :: "real \<Rightarrow> real \<Rightarrow> pykey \<Rightarrow> real list \<Rightarrow> pykey list \<Rightarrow> pykey list" where
  "burst_loop interval_threshold bound account [] suspicious_accounts = suspicious_accounts"
| "burst_loop interval_threshold bound account (interval # intervals) suspicious_accounts =
     burst_loop interval_threshold bound account intervals
       (if interval < interval_threshold \<and> interval < bound
        then append_once account suspicious_accounts else suspicious_accounts)"

text \<open>
  Lines 42-73, the body of the \<^verbatim>\<open>try\<close> block for one account: the list of suspicious
  accounts after it, and the exception that left it, if any (the handler of lines 75-77
  logs it and goes on with the next account).
\<close>

definition try_account ::
  "parser_binding \<Rightarrow> real \<Rightarrow> real \<Rightarrow> pykey \<Rightarrow> pyval \<Rightarrow> pykey list \<Rightarrow> pykey list \<times> exn option" where
  "try_account parser interval_threshold outlier_threshold_stddev account timestamps suspicious_accounts =
     (case timestamps of
        VList vs \<Rightarrow>
          (case check_strings vs of
             Inl e \<Rightarrow> (suspicious_accounts, Some e)
           | Inr tss \<Rightarrow>
               (case parse_timestamps parser tss [] of
                  Inl e \<Rightarrow> (suspicious_accounts, Some e)
                | Inr parsed_timestamps \<Rightarrow>
                    if length parsed_timestamps < 2 then (suspicious_accounts, None)
                    else
                      let intervals = intervals_of (sort parsed_timestamps) in
                      if intervals = [] then (suspicious_accounts, None)
                      else
                        let avg_interval = sum_list intervals / real (length intervals);
                            flagged = (if avg_interval < interval_threshold
                                       then append_once account suspicious_accounts
                                       else suspicious_accounts)
                        in
                          if length intervals > 1 then
                            (case statistics_stdev intervals of
                               Inl e \<Rightarrow> (flagged, Some e)
                             | Inr stddev \<Rightarrow>
                                 (burst_loop interval_threshold
                                    (avg_interval - outlier_threshold_stddev * stddev)
                                    account intervals flagged, None))
                          else (flagged, None)))
      | _ \<Rightarrow> (suspicious_accounts, Some TypeError))"

text \<open>Lines 38-77: the loop over the accounts; line 39 skips an empty (falsy) value.\<close>

fun accounts_loop ::
  "parser_binding \<Rightarrow> real \<Rightarrow> real \<Rightarrow> (pykey \<times> pyval) list \<Rightarrow> pykey list \<Rightarrow> pykey list" where
  "accounts_loop parser interval_threshold outlier_threshold_stddev [] suspicious_accounts =
     suspicious_accounts"
| "accounts_loop parser interval_threshold outlier_threshold_stddev ((account, timestamps) # items)
     suspicious_accounts =
     accounts_loop parser interval_threshold outlier_threshold_stddev items
       (if \<not> truthy timestamps then suspicious_accounts
        else fst (try_account parser interval_threshold outlier_threshold_stddev
                    account timestamps suspicious_accounts))"

definition detect_abnormal_posting :: "parser_binding \<Rightarrow> pyval \<Rightarrow> real \<Rightarrow> real \<Rightarrow> pykey list" where
  "detect_abnormal_posting parser accounts_data interval_threshold outlier_threshold_stddev =
     (case accounts_data of
        VDict items \<Rightarrow>
          accounts_loop parser interval_threshold outlier_threshold_stddev items []
      | _ \<Rightarrow> [])"

section \<open>detect\_repeated\_phrases (lines 81-99)\<close>

text \<open>
  Whitespace as \<^verbatim>\<open>str.strip\<close> and the class \<^verbatim>\<open>\s\<close> of a string pattern read it: the
  code points for which \<^verbatim>\<open>str.isspace\<close> holds.
\<close>

definition is_space :: "nat \<Rightarrow> bool" where
  "is_space c =
     (c \<in> {9, 10, 11, 12, 13, 28, 29, 30, 31, 32, 133, 160, 5760, 8232, 8233, 8239, 8287, 12288}
      \<or> (8192 \<le> c \<and> c \<le> 8202))"

text \<open>
  \<^verbatim>\<open>str.lower\<close>. On a string of code points below 256 it works code point by code point:
  the ASCII capitals and the capitals of Latin-1 move up by 32. On any other string it
  follows the case mappings of the Unicode database, which are no part of the repository:
  there it is the parameter \<open>unicode_lower\<close> (in Python, for instance, the Kelvin sign
  U+212A lowers to the letter k).
\<close>

definition latin1_lower :: "nat \<Rightarrow> nat" where
  "latin1_lower c =
     (if (65 \<le> c \<and> c \<le> 90) \<or> (192 \<le> c \<and> c \<le> 222 \<and> c \<noteq> 215) then c + 32 else c)"

definition lower :: "(str \<Rightarrow> str) \<Rightarrow> str \<Rightarrow> str" where
  "lower unicode_lower s =
     (if list_all (\<lambda>c. c < 256) s then map latin1_lower s else unicode_lower s)"

definition strip :: "str \<Rightarrow> str" where
  "strip s = rev (dropWhile is_space (rev (dropWhile is_space s)))"

text \<open>
  The cleaning rule: \<^verbatim>\<open>re.sub(cleaning_regex, '', s)\<close> as a function of \<open>s\<close>, \<open>Inl\<close> when
  the call raises (a pattern that does not compile). The default pattern
  \<^verbatim>\<open>[^a-zA-Z0-9\s]\<close> removes every character that is not an ASCII letter, a digit or
  whitespace.
\<close>

type_synonym cleaning_rule = "str \<Rightarrow> exn + str"

definition kept_by_default :: "nat \<Rightarrow> bool" where
  "kept_by_default c =
     ((97 \<le> c \<and> c \<le> 122) \<or> (65 \<le> c \<and> c \<le> 90) \<or> (48 \<le> c \<and> c \<le> 57) \<or> is_space c)"

definition default_cleaning :: cleaning_rule where
  "default_cleaning s = Inr (filter kept_by_default s)"

text \<open>Line 94 on a \<^verbatim>\<open>defaultdict(int)\<close>: a new key is inserted last.\<close>

fun increment :: "str \<Rightarrow> (str \<times> nat) list \<Rightarrow> (str \<times> nat) list" where
  "increment k [] = [(k, 1)]"
| "increment k ((k', c) # kcs) =
     (if k = k' then (k', c + 1) # kcs else (k', c) # increment k kcs)"

text \<open>Lines 88-97.\<close>

fun phrases_loop ::
  "(str \<Rightarrow> str) \<Rightarrow> cleaning_rule \<Rightarrow> pyval list \<Rightarrow> (str \<times> nat) list \<Rightarrow> (str \<times> nat) list" where
  "phrases_loop unicode_lower cleaning [] phrase_counts = phrase_counts"
| "phrases_loop unicode_lower cleaning (VStr post # posts) phrase_counts =
     (case cleaning (lower unicode_lower post) of
        Inl e \<Rightarrow> phrases_loop unicode_lower cleaning posts phrase_counts
      | Inr cleaned \<Rightarrow>
          phrases_loop unicode_lower cleaning posts (increment (strip cleaned) phrase_counts))"
| "phrases_loop unicode_lower cleaning (post # posts) phrase_counts =
     phrases_loop unicode_lower cleaning posts phrase_counts"

definition detect_repeated_phrases ::
  "(str \<Rightarrow> str) \<Rightarrow> pyval \<Rightarrow> int \<Rightarrow> cleaning_rule \<Rightarrow> str list" where
  "detect_repeated_phrases unicode_lower posts repetition_threshold cleaning =
     (case posts of
        VList ps \<Rightarrow>
          map fst (filter (\<lambda>(phrase, count). int count > repetition_threshold)
                     (phrases_loop unicode_lower cleaning ps []))
      | _ \<Rightarrow> [])"

section \<open>sentiment\_analysis (lines 101-126)\<close>

text \<open>\<^verbatim>\<open>TextBlob(post).sentiment.polarity\<close>, line 117.\<close>

definition TextBlob_polarity :: "textblob_binding \<Rightarrow> str \<Rightarrow> exn + real" where
  "TextBlob_polarity TextBlob post =
     (case TextBlob of
        None \<Rightarrow> Inl NameError
      | Some polarity \<Rightarrow> (case polarity post of None \<Rightarrow> Inl ValueError | Some x \<Rightarrow> Inr x))"

text \<open>Lines 112-120: every exception of the call is logged and the post left out.\<close>

fun sentiments_loop :: "textblob_binding \<Rightarrow> pyval list \<Rightarrow> real list \<Rightarrow> real list" where
  "sentiments_loop TextBlob [] sentiments = sentiments"
| "sentiments_loop TextBlob (VStr post # posts) sentiments =
     (case TextBlob_polarity TextBlob post of
        Inl e \<Rightarrow> sentiments_loop TextBlob posts sentiments
      | Inr x \<Rightarrow> sentiments_loop TextBlob posts (sentiments @ [x]))"
| "sentiments_loop TextBlob (post # posts) sentiments = sentiments_loop TextBlob posts sentiments"

definition sentiment_analysis :: "textblob_binding \<Rightarrow> pyval \<Rightarrow> real" where
  "sentiment_analysis TextBlob posts =
     (case posts of
        VList ps \<Rightarrow>
          if ps = [] then 0
          else
            let sentiments = sentiments_loop TextBlob ps [] in
            if sentiments = [] then 0
            else sum_list sentiments / real (length sentiments)
      | _ \<Rightarrow> 0)"

section \<open>analyze\_network (lines 128-153)\<close>

text \<open>Lines 142-150: the edges of one account.\<close>

fun friends_loop :: "'g nx_module \<Rightarrow> str \<Rightarrow> pyval list \<Rightarrow> 'g \<Rightarrow> 'g" where
  "friends_loop nx account [] G = G"
| "friends_loop nx account (VStr friend # friends) G =
     (case nx_add_edge nx G account friend of
        None \<Rightarrow> friends_loop nx account friends G
      | Some G' \<Rightarrow> friends_loop nx account friends G')"
| "friends_loop nx account (friend # friends) G = friends_loop nx account friends G"

text \<open>Lines 135-150.\<close>

fun network_loop :: "'g nx_module \<Rightarrow> (pykey \<times> pyval) list \<Rightarrow> 'g \<Rightarrow> 'g" where
  "network_loop nx [] G = G"
| "network_loop nx ((KStr account, VList friends) # items) G =
     network_loop nx items (friends_loop nx account friends G)"
| "network_loop nx (item # items) G = network_loop nx items G"

text \<open>
  The name \<^verbatim>\<open>nx\<close> is read at line 134, after the type check of line 130 and outside every
  \<^verbatim>\<open>try\<close>: unbound, its \<^verbatim>\<open>NameError\<close> leaves the function.
\<close>

definition analyze_network :: "'g nx_module option \<Rightarrow> pyval \<Rightarrow> int \<Rightarrow> exn + str list list" where
  "analyze_network nx_binding accounts cluster_threshold =
     (case accounts of
        VDict items \<Rightarrow>
          (case nx_binding of
             None \<Rightarrow> Inl NameError
           | Some nx \<Rightarrow>
               Inr (filter (\<lambda>component. int (length component) > cluster_threshold)
                      (nx_connected_components nx (network_loop nx items (nx_Graph nx)))))
      | _ \<Rightarrow> Inr [])"

section \<open>The properties, in the words of the specification\<close>

text \<open>The normalized key of a post, and how often a key occurs among the string entries.\<close>

definition normalized_key :: "(str \<Rightarrow> str) \<Rightarrow> cleaning_rule \<Rightarrow> str \<Rightarrow> str option" where
  "normalized_key unicode_lower cleaning post =
     (case cleaning (lower unicode_lower post) of
        Inl e \<Rightarrow> None
      | Inr cleaned \<Rightarrow> Some (strip cleaned))"

definition frequency :: "(str \<Rightarrow> str) \<Rightarrow> cleaning_rule \<Rightarrow> pyval list \<Rightarrow> str \<Rightarrow> nat" where
  "frequency unicode_lower cleaning ps key =
     length (filter (\<lambda>p. is_str p \<and> normalized_key unicode_lower cleaning (the_str p) = Some key) ps)"

text \<open>
  A post made of characters the default rule removes and of whitespace: read on the post as
  it is given (\<open>blank_as_given\<close>), and read on the lowercased post, which is what line 93
  cleans (\<open>blank_post\<close>).
\<close>

definition blank_as_given :: "pyval \<Rightarrow> bool" where
  "blank_as_given p =
     (is_str p \<and> list_all (\<lambda>c. \<not> kept_by_default c \<or> is_space c) (the_str p))"

definition blank_post :: "(str \<Rightarrow> str) \<Rightarrow> pyval \<Rightarrow> bool" where
  "blank_post unicode_lower p =
     (is_str p \<and>
      list_all (\<lambda>c. \<not> kept_by_default c \<or> is_space c) (lower unicode_lower (the_str p)))"

section \<open>Sample inputs\<close>

text \<open>
  The accounts \<^verbatim>\<open>bot2\<close> and \<^verbatim>\<open>empty\<close> of the module's demonstration (lines 158 and 160), the
  same with one list reordered, and one account with two timestamps.
\<close>

definition sample_accounts :: pyval where
  "sample_accounts =
     VDict [(KStr (py ''bot2''),
             VList [VStr (py ''2025-03-09 11:59:50''), VStr (py ''2025-03-09 11:59:55''),
                    VStr (py ''2025-03-09 12:00:02'')]),
            (KStr (py ''empty''), VList [])]"

definition sample_accounts_reordered :: pyval where
  "sample_accounts_reordered =
     VDict [(KStr (py ''bot2''),
             VList [VStr (py ''2025-03-09 12:00:02''), VStr (py ''2025-03-09 11:59:50''),
                    VStr (py ''2025-03-09 11:59:55'')]),
            (KStr (py ''empty''), VList [])]"

definition sample_pair :: pyval where
  "sample_pair =
     VDict [(KStr (py ''pair''),
             VList [VStr (py ''2025-03-09 11:59:50''), VStr (py ''2025-03-09 11:59:55'')])]"

text \<open>
  A parser bound to a table for these timestamps, in seconds after 11:59:50; every other
  string is a \<^verbatim>\<open>ValueError\<close>.
\<close>

definition sample_parser :: parser_binding where
  "sample_parser =
     Some (map_of [(py ''2025-03-09 11:59:50'', 0), (py ''2025-03-09 11:59:55'', 5),
                   (py ''2025-03-09 12:00:02'', 12)])"

text \<open>The graph of the specification's scenario.\<close>

definition sample_network :: pyval where
  "sample_network =
     VDict [(KStr (py ''a''), VList [VStr (py ''b'')]), (KStr (py ''b''), VList [VStr (py ''c'')]),
            (KStr (py ''c''), VList [VStr (py ''a'')]), (KStr (py ''d''), VList [VStr (py ''e'')])]"

text \<open>Posts for the phrase detector and for the sentiment score.\<close>

definition sample_posts :: "pyval list" where
  "sample_posts =
     [VStr (py ''spam''), VStr (py ''Spam!''), VInt 7, VStr (py '' spam ''), VStr (py ''unique'')]"

definition sample_blank_posts :: "pyval list" where
  "sample_blank_posts = [VStr (py ''!!!''), VStr (py ''   ''), VStr (py ''ok'')]"

definition sample_sentiment_posts :: "pyval list" where
  "sample_sentiment_posts = [VStr (py ''I love this'')]"

text \<open>
  \<^verbatim>\<open>str.lower\<close> on the strings of the examples that hold a code point from 256 on: the
  Kelvin sign U+212A lowers to k, the capital I with dot U+0130 to i and the combining dot
  U+0307. Six posts of one Kelvin sign each.
\<close>

definition sample_unicode_lower :: "str \<Rightarrow> str" where
  "sample_unicode_lower s =
     concat (map (\<lambda>c. if c = 8490 then [107] else if c = 304 then [105, 775] else [c]) s)"

definition kelvin_posts :: "pyval list" where
  "kelvin_posts =
     [VStr [8490], VStr [8490], VStr [8490], VStr [8490], VStr [8490], VStr [8490]]"

section \<open>Auxiliary notions of the proofs\<close>

text \<open>The count a key has in the table, 0 for a key that is not in it.\<close>

definition count_of :: "(str \<times> nat) list \<Rightarrow> str \<Rightarrow> nat" where
  "count_of kcs k = (case map_of kcs k of None \<Rightarrow> 0 | Some c \<Rightarrow> c)"

text \<open>
  A closed form of the \<^verbatim>\<open>try\<close> block of one account, for the proofs about the loop:
  \<open>parsed_instants\<close> is the list \<^verbatim>\<open>parsed_timestamps\<close> when line 56 is reached and empty when
  the block is left before (a value that is no list of strings, an unbound \<^verbatim>\<open>parser\<close>), and
  \<open>appends\<close> says whether the block appends the account.
\<close>

definition parsed_instants :: "parser_binding \<Rightarrow> pyval \<Rightarrow> real list" where
  "parsed_instants parser timestamps =
     (case (parser, timestamps) of
        (Some parse, VList vs) \<Rightarrow>
          if list_all is_str vs then List.map_filter parse (map the_str vs) else []
      | _ \<Rightarrow> [])"

definition gaps :: "real list \<Rightarrow> real list" where
  "gaps instants = (let s = sort instants in map (\<lambda>(a, b). b - a) (zip s (tl s)))"

definition sample_stddev :: "real list \<Rightarrow> real" where
  "sample_stddev xs = sqrt (sum_list (map (\<lambda>x. (x - mean xs)\<^sup>2) xs) / (real (length xs) - 1))"

definition rule_A :: "real \<Rightarrow> real list \<Rightarrow> bool" where
  "rule_A interval_threshold gs = (mean gs < interval_threshold)"

definition rule_B :: "real \<Rightarrow> real \<Rightarrow> real list \<Rightarrow> bool" where
  "rule_B interval_threshold outlier_threshold_stddev gs =
     (2 \<le> length gs \<and>
      list_ex (\<lambda>g. g < interval_threshold \<and>
                    g < mean gs - outlier_threshold_stddev * sample_stddev gs) gs)"

definition appends :: "parser_binding \<Rightarrow> real \<Rightarrow> real \<Rightarrow> pyval \<Rightarrow> bool" where
  "appends parser interval_threshold outlier_threshold_stddev timestamps =
     (let instants = parsed_instants parser timestamps in
      2 \<le> length instants \<and>
      (rule_A interval_threshold (gaps instants) \<or>
       rule_B interval_threshold outlier_threshold_stddev (gaps instants)))"

section \<open>Facts about detect\_abnormal\_posting\<close>

lemma intervals_of_zip: "intervals_of ts = map (\<lambda>(a, b). b - a) (zip ts (tl ts))"
  apply (simp add: intervals_of_def)
  apply (rule nth_equalityI)
   apply (auto simp: nth_tl)
  done

lemma intervals_of_simps:
  "intervals_of [] = []" "intervals_of [a] = []"
  "intervals_of (a # b # ts) = (b - a) # intervals_of (b # ts)"
  by (simp_all add: intervals_of_zip)

lemma check_strings_eq:
  "check_strings vs = (if list_all is_str vs then Inr (map the_str vs) else Inl TypeError)"
  by (induction vs rule: check_strings.induct) auto

lemma parse_timestamps_bound:
  "parse_timestamps (Some p) tss acc = Inr (acc @ List.map_filter p tss)"
  by (induction tss arbitrary: acc) (auto simp: parser_parse_def List.map_filter_simps split: option.splits)

lemma parse_timestamps_unbound:
  "parse_timestamps None tss acc = (if tss = [] then Inr acc else Inl NameError)"
  by (cases tss) (auto simp: parser_parse_def)

lemma append_once_idem: "append_once a (append_once a s) = append_once a s"
  by (simp add: append_once_def)

lemma burst_loop_eq:
  "burst_loop thr b a ivs s = (if list_ex (\<lambda>i. i < thr \<and> i < b) ivs then append_once a s else s)"
proof (induction ivs arbitrary: s)
  case Nil
  show ?case by simp
next
  case (Cons i ivs)
  show ?case by (simp add: Cons.IH append_once_idem)
qed

lemma parsed_instants_unbound: "parsed_instants None v = []"
  by (simp add: parsed_instants_def)

lemma gaps_eq: "gaps ps = intervals_of (sort ps)"
  by (simp add: gaps_def intervals_of_zip Let_def)

lemma length_intervals_of: "length (intervals_of ts) = length ts - 1"
  by (simp add: intervals_of_def)

lemma sample_stddev_eq: "2 \<le> length xs \<Longrightarrow> statistics_stdev xs = Inr (sample_stddev xs)"
  by (simp add: statistics_stdev_def sample_stddev_def of_nat_diff)

lemma try_account_fst:
  "fst (try_account parser thr k a v s) = (if appends parser thr k v then append_once a s else s)"
proof (cases v)
  case (VList vs)
  show ?thesis
  proof (cases parser)
    case None
    then show ?thesis using VList
      by (auto simp: try_account_def appends_def parsed_instants_def check_strings_eq
          parse_timestamps_unbound)
  next
    case (Some p)
    show ?thesis
    proof (cases "list_all is_str vs")
      case False
      then show ?thesis using VList Some
        by (simp add: try_account_def appends_def parsed_instants_def check_strings_eq)
    next
      case True
      define ps where "ps = List.map_filter p (map the_str vs)"
      have sp: "parsed_instants parser v = ps"
        using VList Some True by (simp add: parsed_instants_def ps_def)
      show ?thesis
      proof (cases "length ps < 2")
        case True
        then show ?thesis using VList Some \<open>list_all is_str vs\<close> sp
          by (simp add: try_account_def appends_def check_strings_eq parse_timestamps_bound ps_def)
      next
        case False
        then have len: "length (gaps ps) = length ps - 1" "gaps ps \<noteq> []"
          by (auto simp: gaps_eq length_intervals_of simp flip: length_0_conv)
        show ?thesis
        proof (cases "length (gaps ps) > 1")
          case True
          then have sd: "statistics_stdev (gaps ps) = Inr (sample_stddev (gaps ps))"
            by (simp add: sample_stddev_eq)
          show ?thesis using VList Some \<open>list_all is_str vs\<close> sp False len True sd
            unfolding try_account_def appends_def
            apply (simp add: check_strings_eq parse_timestamps_bound flip: ps_def gaps_eq)
            apply (auto simp: Let_def burst_loop_eq rule_A_def rule_B_def mean_def append_once_idem)
            done
        next
          case g1: False
          show ?thesis using VList Some \<open>list_all is_str vs\<close> sp False len g1
            unfolding try_account_def appends_def
            apply (simp add: check_strings_eq parse_timestamps_bound flip: ps_def gaps_eq)
            apply (auto simp: Let_def burst_loop_eq rule_A_def rule_B_def mean_def append_once_idem)
            done
        qed
      qed
    qed
  qed
qed (simp_all add: try_account_def appends_def parsed_instants_def split: option.splits)

lemma not_truthy_not_appends: "\<not> truthy v \<Longrightarrow> \<not> appends parser thr k v"
  by (cases v) (auto simp: appends_def parsed_instants_def List.map_filter_simps split: option.splits)

lemma set_append_once: "set (append_once a s) = insert a (set s)"
  by (auto simp: append_once_def)

lemma distinct_append_once: "distinct s \<Longrightarrow> distinct (append_once a s)"
  by (simp add: append_once_def)

lemma set_accounts_loop:
  "set (accounts_loop parser thr k items s) =
     set s \<union> {a. \<exists>v. (a, v) \<in> set items \<and> appends parser thr k v}"
proof (induction items arbitrary: s)
  case Nil
  show ?case by simp
next
  case (Cons item items)
  obtain a v where item: "item = (a, v)" by (cases item)
  show ?case
    using not_truthy_not_appends [of v parser thr k]
    by (auto simp: item Cons.IH try_account_fst set_append_once)
qed

lemma distinct_accounts_loop:
  "distinct s \<Longrightarrow> distinct (accounts_loop parser thr k items s)"
proof (induction items arbitrary: s)
  case Nil
  then show ?case by simp
next
  case (Cons item items)
  obtain a v where item: "item = (a, v)" by (cases item)
  show ?case
    using Cons.prems
    by (auto simp: item try_account_fst distinct_append_once intro!: Cons.IH)
qed

text \<open>
  In the module as written the name \<^verbatim>\<open>parser\<close> is unbound: line 51 raises \<^verbatim>\<open>NameError\<close>
  on the first timestamp, line 52 does not catch it, line 75 does, and the account is
  skipped. No account is ever flagged.
\<close>

lemma try_account_as_written:
  "vs \<noteq> [] \<Longrightarrow> list_all is_str vs \<Longrightarrow>
   try_account module_parser thr k a (VList vs) s = (s, Some NameError)"
  by (simp add: try_account_def module_parser_def check_strings_eq parse_timestamps_unbound)

lemma detect_abnormal_posting_as_written:
  "detect_abnormal_posting module_parser accounts_data interval_threshold outlier_threshold_stddev = []"
proof (cases accounts_data)
  case (VDict items)
  have "set (accounts_loop None interval_threshold outlier_threshold_stddev items []) = {}"
    by (simp add: set_accounts_loop appends_def parsed_instants_unbound)
  then show ?thesis using VDict
    by (simp add: detect_abnormal_posting_def module_parser_def)
qed (simp_all add: detect_abnormal_posting_def)

text \<open>
  Claim C1 says that the accounts with at least two parsed timestamps whose gaps satisfy
  Rule A or Rule B are flagged. On the accounts of the module's own demonstration, where
  \<^verbatim>\<open>bot2\<close> has three timestamps with gaps of 5 and 7 seconds (mean 6, below the threshold
  30) and the claim gives \<^verbatim>\<open>bot2\<close>, the module as written leaves the block of \<^verbatim>\<open>bot2\<close> with
  \<^verbatim>\<open>NameError\<close> and returns the empty list.
\<close>

theorem detect_abnormal_posting_flags_nothing:
  "try_account module_parser 30 2 (KStr (py ''bot2''))
     (VList [VStr (py ''2025-03-09 11:59:50''), VStr (py ''2025-03-09 11:59:55''),
             VStr (py ''2025-03-09 12:00:02'')]) []
     = ([], Some NameError)
   \<and> detect_abnormal_posting module_parser sample_accounts 30 2 = []"
  by (simp add: try_account_as_written detect_abnormal_posting_as_written)

text \<open>
  Claim C6 says that an account with exactly two parsed timestamps is handled without
  error and flagged when its one gap is below \<^verbatim>\<open>interval_threshold\<close>. On an account with two
  timestamps 5 seconds apart the module as written leaves the block with \<^verbatim>\<open>NameError\<close>
  and does not flag the account.
\<close>

theorem two_timestamps_NameError:
  "try_account module_parser 30 2 (KStr (py ''pair''))
     (VList [VStr (py ''2025-03-09 11:59:50''), VStr (py ''2025-03-09 11:59:55'')]) []
     = ([], Some NameError)
   \<and> detect_abnormal_posting module_parser sample_pair 30 2 = []"
  by (simp add: try_account_as_written detect_abnormal_posting_as_written)

subsection \<open>Order of the timestamps\<close>

lemma sort_cong_mset: "mset xs = mset ys \<Longrightarrow> sort xs = sort (ys :: real list)"
  by (rule properties_for_sort) simp_all

lemma map_filter_conv: "List.map_filter f xs = map (\<lambda>x. the (f x)) (filter (\<lambda>x. f x \<noteq> None) xs)"
  by (simp add: List.map_filter_def)

lemma parsed_instants_mset:
  assumes "mset vs' = mset vs"
  shows "mset (parsed_instants parser (VList vs')) = mset (parsed_instants parser (VList vs))"
proof (cases parser)
  case None
  then show ?thesis by (simp add: parsed_instants_def)
next
  case (Some p)
  have "set vs' = set vs" using assms by (rule mset_eq_setD)
  then have "list_all is_str vs' = list_all is_str vs" by (simp add: list_all_iff)
  then show ?thesis using Some assms
    by (simp add: parsed_instants_def map_filter_conv)
qed

lemma appends_permutation:
  assumes "mset vs' = mset vs"
  shows "appends parser thr k (VList vs') = appends parser thr k (VList vs)"
proof -
  have m: "mset (parsed_instants parser (VList vs')) = mset (parsed_instants parser (VList vs))"
    using assms by (rule parsed_instants_mset)
  have "gaps (parsed_instants parser (VList vs')) = gaps (parsed_instants parser (VList vs))"
    by (simp add: gaps_def sort_cong_mset [OF m])
  moreover have "length (parsed_instants parser (VList vs'))
      = length (parsed_instants parser (VList vs))"
    using m by (rule mset_eq_length)
  ultimately show ?thesis by (simp add: appends_def Let_def)
qed

lemma accounts_loop_append:
  "accounts_loop parser thr k (xs @ ys) s = accounts_loop parser thr k ys (accounts_loop parser thr k xs s)"
  by (induction xs arbitrary: s) auto

text \<open>
  Claim C7. Replacing the timestamp list of one account by a permutation of it leaves the
  result of \<^verbatim>\<open>detect_abnormal_posting\<close> unchanged: the dictionary keeps its keys in place,
  and the list of that account is any list with the same entries.
\<close>

theorem detect_abnormal_posting_permutation:
  assumes "mset timestamps' = mset timestamps"
  shows "detect_abnormal_posting parser (VDict (before @ (account, VList timestamps') # after))
           interval_threshold outlier_threshold_stddev
       = detect_abnormal_posting parser (VDict (before @ (account, VList timestamps) # after))
           interval_threshold outlier_threshold_stddev"
proof -
  have "truthy (VList timestamps') = truthy (VList timestamps)"
    using mset_eq_length [OF assms] by auto
  then show ?thesis
    by (simp add: detect_abnormal_posting_def accounts_loop_append try_account_fst
        appends_permutation [OF assms])
qed

theorem detect_abnormal_posting_permutation_witness:
  "detect_abnormal_posting sample_parser sample_accounts_reordered 30 2
     = detect_abnormal_posting sample_parser sample_accounts 30 2
   \<and> detect_abnormal_posting module_parser sample_accounts_reordered 30 2
     = detect_abnormal_posting module_parser sample_accounts 30 2"
proof -
  have m: "mset [VStr (py ''2025-03-09 12:00:02''), VStr (py ''2025-03-09 11:59:50''),
              VStr (py ''2025-03-09 11:59:55'')]
      = mset [VStr (py ''2025-03-09 11:59:50''), VStr (py ''2025-03-09 11:59:55''),
              VStr (py ''2025-03-09 12:00:02'')]"
    by simp
  from detect_abnormal_posting_permutation [OF m, of sample_parser "[]" "KStr (py ''bot2'')"
      "[(KStr (py ''empty''), VList [])]" 30 2]
    detect_abnormal_posting_permutation [OF m, of module_parser "[]" "KStr (py ''bot2'')"
      "[(KStr (py ''empty''), VList [])]" 30 2]
  show ?thesis
    by (simp add: sample_accounts_def sample_accounts_reordered_def)
qed

subsection \<open>No account twice\<close>

text \<open>
  Claim C9. The list \<^verbatim>\<open>detect_abnormal_posting\<close> returns holds every account at most once,
  also when both rules flag it.
\<close>

theorem detect_abnormal_posting_distinct:
  "distinct (detect_abnormal_posting parser accounts_data interval_threshold outlier_threshold_stddev)"
  by (cases accounts_data) (simp_all add: detect_abnormal_posting_def distinct_accounts_loop)

section \<open>Facts about detect\_repeated\_phrases\<close>

lemma fst_increment: "fst ` set (increment k kcs) = insert k (fst ` set kcs)"
  by (induction kcs) force+

lemma distinct_increment: "distinct (map fst kcs) \<Longrightarrow> distinct (map fst (increment k kcs))"
proof (induction kcs)
  case Nil
  show ?case by simp
next
  case (Cons kc kcs)
  obtain k' c where kc: "kc = (k', c)" by (cases kc)
  have "fst ` set (increment k kcs) = insert k (fst ` set kcs)"
    by (rule fst_increment)
  with Cons show ?case by (auto simp: kc)
qed

lemma count_of_increment:
  "count_of (increment k kcs) key = count_of kcs key + (if key = k then 1 else 0)"
  by (induction kcs) (auto simp: count_of_def)

lemma positive_increment:
  "list_all (\<lambda>(k, c). 0 < c) kcs \<Longrightarrow> list_all (\<lambda>(k, c). 0 < c) (increment k kcs)"
  by (induction kcs) auto

lemma frequency_Nil: "frequency u cleaning [] key = 0"
  by (simp add: frequency_def)

lemma frequency_Cons:
  "frequency u cleaning (p # ps) key =
     (if is_str p \<and> normalized_key u cleaning (the_str p) = Some key then 1 else 0)
     + frequency u cleaning ps key"
  by (simp add: frequency_def)

lemma phrases_loop_inv:
  "distinct (map fst kcs) \<Longrightarrow> list_all (\<lambda>(k, c). 0 < c) kcs \<Longrightarrow>
   distinct (map fst (phrases_loop u cleaning ps kcs))
   \<and> list_all (\<lambda>(k, c). 0 < c) (phrases_loop u cleaning ps kcs)
   \<and> (\<forall>key. count_of (phrases_loop u cleaning ps kcs) key
               = count_of kcs key + frequency u cleaning ps key)"
proof (induction u cleaning ps kcs rule: phrases_loop.induct)
  case (1 u cleaning phrase_counts)
  then show ?case by (simp add: frequency_Nil)
next
  case (2 u cleaning post posts phrase_counts)
  show ?case
  proof (cases "cleaning (lower u post)")
    case (Inl e)
    with 2 show ?thesis by (simp add: frequency_Cons normalized_key_def)
  next
    case (Inr cleaned)
    from 2(2)[OF Inr distinct_increment [OF 2(3)] positive_increment [OF 2(4)]] Inr
    show ?thesis
      by (auto simp: frequency_Cons normalized_key_def count_of_increment)
  qed
qed (simp_all add: frequency_Cons)

lemma count_of_mem:
  assumes "distinct (map fst kcs)" and "list_all (\<lambda>(k, c). 0 < c) kcs"
  shows "(\<exists>c. (k, c) \<in> set kcs \<and> P c) \<longleftrightarrow> (0 < count_of kcs k \<and> P (count_of kcs k))"
proof
  assume "\<exists>c. (k, c) \<in> set kcs \<and> P c"
  then obtain c where c: "(k, c) \<in> set kcs" "P c" by blast
  then have "map_of kcs k = Some c" using assms(1) by simp
  moreover have "0 < c" using c(1) assms(2) by (auto simp: list_all_iff)
  ultimately show "0 < count_of kcs k \<and> P (count_of kcs k)" using c(2) by (simp add: count_of_def)
next
  assume a: "0 < count_of kcs k \<and> P (count_of kcs k)"
  then obtain c where "map_of kcs k = Some c" by (auto simp: count_of_def split: option.splits)
  then show "\<exists>c. (k, c) \<in> set kcs \<and> P c" using a by (auto simp: count_of_def dest: map_of_SomeD)
qed

lemma set_detect_repeated_phrases:
  "key \<in> set (detect_repeated_phrases u (VList ps) thr cleaning)
     \<longleftrightarrow> 0 < frequency u cleaning ps key \<and> thr < int (frequency u cleaning ps key)"
proof -
  let ?t = "phrases_loop u cleaning ps []"
  have inv: "distinct (map fst ?t)" "list_all (\<lambda>(k, c). 0 < c) ?t"
    "count_of ?t key = frequency u cleaning ps key"
    using phrases_loop_inv [of "[]" u cleaning ps] by (simp_all add: count_of_def)
  have "key \<in> set (detect_repeated_phrases u (VList ps) thr cleaning)
      \<longleftrightarrow> (\<exists>c. (key, c) \<in> set ?t \<and> thr < int c)"
    by (force simp: detect_repeated_phrases_def)
  also have "\<dots> \<longleftrightarrow> 0 < count_of ?t key \<and> thr < int (count_of ?t key)"
    by (rule count_of_mem [OF inv(1,2)])
  finally show ?thesis by (simp add: inv(3))
qed

lemma distinct_detect_repeated_phrases:
  "distinct (detect_repeated_phrases u posts thr cleaning)"
proof (cases posts)
  case (VList ps)
  have "distinct (map fst (phrases_loop u cleaning ps []))"
    using phrases_loop_inv [of "[]" u cleaning ps] by simp
  then show ?thesis using VList
    by (simp add: detect_repeated_phrases_def distinct_map_filter)
qed (simp_all add: detect_repeated_phrases_def)

lemma phrases_loop_strings:
  "phrases_loop u cleaning (filter is_str ps) kcs = phrases_loop u cleaning ps kcs"
  by (induction u cleaning ps kcs rule: phrases_loop.induct) (auto split: sum.splits)

lemma frequency_strings: "frequency u cleaning (filter is_str ps) key = frequency u cleaning ps key"
  by (induction ps) (auto simp: frequency_Cons)

lemmas phrase_defs =
  normalized_key_def default_cleaning_def lower_def py_def latin1_lower_def
  kept_by_default_def is_space_def strip_def frequency_def

lemma hello_key:
  "normalized_key u default_cleaning (py ''Hello!!'') = Some (py ''hello'')"
  "normalized_key u default_cleaning (py ''hello'') = Some (py ''hello'')"
  by (simp_all add: phrase_defs)

text \<open>
  Claim C2. For a list, \<^verbatim>\<open>detect_repeated_phrases\<close> returns exactly the normalized keys
  (the post lowercased, cleaned by the rule, stripped) whose count over the string entries
  is strictly greater than \<^verbatim>\<open>repetition_threshold\<close>, each once: a key counted exactly
  \<^verbatim>\<open>repetition_threshold\<close> times is left out, one counted \<^verbatim>\<open>repetition_threshold + 1\<close>
  times is returned; entries that are not strings add to no count; and \<^verbatim>\<open>"Hello!!"\<close> and
  \<^verbatim>\<open>"hello"\<close> have the same key under the default rule.
\<close>

theorem detect_repeated_phrases_exact:
  "(key \<in> set (detect_repeated_phrases u (VList ps) repetition_threshold cleaning)
      \<longleftrightarrow> 0 < frequency u cleaning ps key
          \<and> repetition_threshold < int (frequency u cleaning ps key))
   \<and> distinct (detect_repeated_phrases u (VList ps) repetition_threshold cleaning)
   \<and> (int (frequency u cleaning ps key) = repetition_threshold \<longrightarrow>
        key \<notin> set (detect_repeated_phrases u (VList ps) repetition_threshold cleaning))
   \<and> (0 < frequency u cleaning ps key
        \<and> int (frequency u cleaning ps key) = repetition_threshold + 1 \<longrightarrow>
        key \<in> set (detect_repeated_phrases u (VList ps) repetition_threshold cleaning))
   \<and> frequency u cleaning (filter is_str ps) key = frequency u cleaning ps key
   \<and> detect_repeated_phrases u (VList (filter is_str ps)) repetition_threshold cleaning
       = detect_repeated_phrases u (VList ps) repetition_threshold cleaning
   \<and> normalized_key u default_cleaning (py ''Hello!!'')
       = normalized_key u default_cleaning (py ''hello'')"
proof -
  have "detect_repeated_phrases u (VList (filter is_str ps)) repetition_threshold cleaning
       = detect_repeated_phrases u (VList ps) repetition_threshold cleaning"
    by (simp add: detect_repeated_phrases_def phrases_loop_strings)
  then show ?thesis
    by (simp add: set_detect_repeated_phrases distinct_detect_repeated_phrases
        frequency_strings hello_key)
qed

lemma frequency_sample:
  "frequency u default_cleaning sample_posts (py ''spam'') = 3"
  "frequency u default_cleaning sample_posts (py ''unique'') = 1"
  by (simp_all add: phrase_defs sample_posts_def)

theorem detect_repeated_phrases_exact_witness:
  "py ''spam''
     \<in> set (detect_repeated_phrases sample_unicode_lower (VList sample_posts) 2 default_cleaning)
   \<and> py ''spam''
     \<notin> set (detect_repeated_phrases sample_unicode_lower (VList sample_posts) 3 default_cleaning)
   \<and> py ''unique''
     \<notin> set (detect_repeated_phrases sample_unicode_lower (VList sample_posts) 1 default_cleaning)"
  using detect_repeated_phrases_exact [of "py ''spam''" sample_unicode_lower sample_posts 2
      default_cleaning]
    detect_repeated_phrases_exact [of "py ''spam''" sample_unicode_lower sample_posts 3
      default_cleaning]
    detect_repeated_phrases_exact [of "py ''unique''" sample_unicode_lower sample_posts 1
      default_cleaning]
  by (simp add: frequency_sample)

subsection \<open>Posts without letters or digits\<close>

lemma is_space_range: "is_space c \<Longrightarrow> c \<le> 160 \<or> 5760 \<le> c"
  unfolding is_space_def by (elim disjE insertE emptyE) simp_all

lemma is_space_not_capital:
  "is_space c \<Longrightarrow> \<not> ((65 \<le> c \<and> c \<le> 90) \<or> (192 \<le> c \<and> c \<le> 222 \<and> c \<noteq> 215))"
  unfolding is_space_def by (elim disjE insertE emptyE) simp_all

lemma space_latin1_lower: "is_space c \<Longrightarrow> latin1_lower c = c"
  using is_space_not_capital [of c] by (simp add: latin1_lower_def)

lemma kept_latin1_lower: "kept_by_default (latin1_lower c) \<Longrightarrow> kept_by_default c"
proof (cases "65 \<le> c \<and> c \<le> 90")
  case True
  then show ?thesis by (simp add: kept_by_default_def)
next
  case False
  assume k: "kept_by_default (latin1_lower c)"
  show ?thesis
  proof (cases "192 \<le> c \<and> c \<le> 222 \<and> c \<noteq> 215")
    case True
    then have l: "latin1_lower c = c + 32" by (simp add: latin1_lower_def)
    have "\<not> is_space (c + 32)" using is_space_range [of "c + 32"] True by auto
    with k l True show ?thesis by (simp add: kept_by_default_def)
  next
    case c2: False
    with False have "latin1_lower c = c" by (simp add: latin1_lower_def)
    with k show ?thesis by simp
  qed
qed

lemma strip_spaces: "list_all is_space s \<Longrightarrow> strip s = []"
proof -
  assume "list_all is_space s"
  then have "dropWhile is_space s = []" by (induction s) auto
  then show ?thesis unfolding strip_def by (simp only: rev.simps dropWhile.simps)
qed

lemma blank_key:
  assumes "blank_post u p"
  shows "normalized_key u default_cleaning (the_str p) = Some []"
proof -
  have "is_space x" if "x \<in> set (filter kept_by_default (lower u (the_str p)))" for x
    using that assms by (auto simp: blank_post_def list_all_iff)
  then have "list_all is_space (filter kept_by_default (lower u (the_str p)))"
    unfolding list_all_iff by blast
  then show ?thesis
    by (simp add: normalized_key_def default_cleaning_def strip_spaces)
qed

lemma blank_frequency:
  "length (filter (blank_post u) ps) \<le> frequency u default_cleaning ps []"
proof -
  have "length (filter (blank_post u) ps)
      \<le> length (filter (\<lambda>p. is_str p \<and> normalized_key u default_cleaning (the_str p) = Some []) ps)"
    by (induction ps) (auto simp: blank_key blank_post_def)
  then show ?thesis by (simp add: frequency_def)
qed

lemma blank_below_256:
  assumes "blank_as_given p" and "list_all (\<lambda>c. c < 256) (the_str p)"
  shows "blank_post u p"
proof -
  have l: "lower u (the_str p) = map latin1_lower (the_str p)"
    using assms(2) by (simp add: lower_def)
  have each: "\<not> kept_by_default (latin1_lower c) \<or> is_space (latin1_lower c)"
    if "c \<in> set (the_str p)" for c
  proof (cases "is_space c")
    case True
    then show ?thesis by (simp add: space_latin1_lower)
  next
    case False
    from that assms(1) have "\<not> kept_by_default c \<or> is_space c"
      unfolding blank_as_given_def list_all_iff by blast
    with False have "\<not> kept_by_default c" by blast
    then have "\<not> kept_by_default (latin1_lower c)"
      using kept_latin1_lower [of c] by blast
    then show ?thesis by blast
  qed
  have "list_all (\<lambda>d. \<not> kept_by_default d \<or> is_space d) (map latin1_lower (the_str p))"
    unfolding list_all_iff
  proof
    fix d
    assume "d \<in> set (map latin1_lower (the_str p))"
    then obtain c where "c \<in> set (the_str p)" "d = latin1_lower c" by auto
    then show "\<not> kept_by_default d \<or> is_space d" using each by blast
  qed
  moreover from assms(1) have "is_str p" unfolding blank_as_given_def by blast
  ultimately show ?thesis unfolding blank_post_def l by blast
qed

lemma kelvin_key:
  "normalized_key sample_unicode_lower default_cleaning [8490] = Some (py ''k'')"
  by (simp add: phrase_defs sample_unicode_lower_def)

lemma kelvin_frequency:
  "frequency sample_unicode_lower default_cleaning kelvin_posts [] = 0"
  "frequency sample_unicode_lower default_cleaning kelvin_posts (py ''k'') = 6"
  by (simp_all add: frequency_def kelvin_posts_def kelvin_key py_def)

text \<open>
  Claim C10 reads the premise on the posts as they are given: every post made only of
  characters the default rule removes and of whitespace is counted under the empty key,
  which is returned when their number exceeds \<^verbatim>\<open>repetition_threshold\<close>. Line 93 lowercases
  before it cleans, and the Kelvin sign, which the rule removes, lowers to the letter k,
  which it keeps: six posts of one Kelvin sign each are made of removed characters only,
  none of them has the empty key, and with threshold 5 the result is the key k, not the
  empty string.
\<close>

theorem kelvin_posts_not_empty_key:
  "list_all blank_as_given kelvin_posts
   \<and> length (filter blank_as_given kelvin_posts) = 6
   \<and> normalized_key sample_unicode_lower default_cleaning [8490] = Some (py ''k'')
   \<and> frequency sample_unicode_lower default_cleaning kelvin_posts [] = 0
   \<and> [] \<notin> set (detect_repeated_phrases sample_unicode_lower (VList kelvin_posts) 5
               default_cleaning)
   \<and> py ''k'' \<in> set (detect_repeated_phrases sample_unicode_lower (VList kelvin_posts) 5
               default_cleaning)"
proof -
  have "list_all blank_as_given kelvin_posts" "length (filter blank_as_given kelvin_posts) = 6"
    by (simp_all add: kelvin_posts_def blank_as_given_def kept_by_default_def is_space_def)
  then show ?thesis
    by (simp add: set_detect_repeated_phrases kelvin_key kelvin_frequency)
qed

text \<open>
  Claim C10, amended. Under the default cleaning rule every post whose lowercased text is
  made only of characters the rule removes and of whitespace has the empty string as its
  key, so all of them are counted under that one key; when there is such a post and their
  number is strictly greater than \<^verbatim>\<open>repetition_threshold\<close>, the empty string is in the
  output. A post of code points below 256 that is made of such characters as it is given
  is one of them.
\<close>

theorem blank_posts_share_empty_key:
  "(blank_post u p \<longrightarrow> normalized_key u default_cleaning (the_str p) = Some [])
   \<and> length (filter (blank_post u) ps) \<le> frequency u default_cleaning ps []
   \<and> (0 < length (filter (blank_post u) ps)
        \<and> repetition_threshold < int (length (filter (blank_post u) ps)) \<longrightarrow>
      [] \<in> set (detect_repeated_phrases u (VList ps) repetition_threshold default_cleaning))
   \<and> (blank_as_given p \<and> list_all (\<lambda>c. c < 256) (the_str p) \<longrightarrow> blank_post u p)"
proof -
  have "[] \<in> set (detect_repeated_phrases u (VList ps) repetition_threshold default_cleaning)"
    if "0 < length (filter (blank_post u) ps)"
      and "repetition_threshold < int (length (filter (blank_post u) ps))"
  proof -
    from that(1) have "0 < frequency u default_cleaning ps []"
      using blank_frequency [of u ps] by linarith
    moreover from that(2) have "repetition_threshold < int (frequency u default_cleaning ps [])"
      using blank_frequency [of u ps] by linarith
    ultimately show ?thesis by (simp add: set_detect_repeated_phrases)
  qed
  then show ?thesis by (simp add: blank_key blank_frequency blank_below_256)
qed

lemma sample_blank:
  "blank_as_given (VStr (py ''!!!''))" "blank_as_given (VStr (py ''   ''))"
  "list_all (\<lambda>c. c < 256) (py ''!!!'')" "list_all (\<lambda>c. c < 256) (py ''   '')"
  "filter (blank_post sample_unicode_lower) sample_blank_posts
     = [VStr (py ''!!!''), VStr (py ''   '')]"
  by (simp_all add: phrase_defs sample_blank_posts_def blank_as_given_def blank_post_def)

theorem blank_posts_share_empty_key_witness:
  "blank_post sample_unicode_lower (VStr (py ''!!!''))
   \<and> normalized_key sample_unicode_lower default_cleaning (py ''!!!'') = Some []
   \<and> normalized_key sample_unicode_lower default_cleaning (py ''   '') = Some []
   \<and> [] \<in> set (detect_repeated_phrases sample_unicode_lower (VList sample_blank_posts) 1
               default_cleaning)"
  using blank_posts_share_empty_key [of sample_unicode_lower "VStr (py ''!!!'')" sample_blank_posts 1]
    blank_posts_share_empty_key [of sample_unicode_lower "VStr (py ''   '')" sample_blank_posts 1]
  by (simp add: sample_blank)

section \<open>Facts about sentiment\_analysis\<close>

text \<open>
  In the module as written the name \<^verbatim>\<open>TextBlob\<close> is unbound: line 117 raises
  \<^verbatim>\<open>NameError\<close> for every string post, line 118 catches it, no score is ever appended and
  the result is 0 for every argument.
\<close>

lemma sentiments_loop_as_written:
  "sentiments_loop None ps sentiments = sentiments"
  by (induction "None :: textblob_binding" ps sentiments rule: sentiments_loop.induct)
    (simp_all add: TextBlob_polarity_def)

lemma sentiment_analysis_as_written: "sentiment_analysis module_TextBlob posts = 0"
  by (cases posts)
    (simp_all add: sentiment_analysis_def sentiments_loop_as_written module_TextBlob_def)

text \<open>
  Claim C4 says that \<^verbatim>\<open>sentiment_analysis\<close> returns the mean of the scores of the string
  posts. On the one post \<^verbatim>\<open>"I love this"\<close>, where the claim gives the score of that post,
  the module as written scores nothing and returns 0.
\<close>

theorem sentiment_analysis_scores_nothing:
  "sentiments_loop module_TextBlob sample_sentiment_posts [] = []
   \<and> sentiment_analysis module_TextBlob (VList sample_sentiment_posts) = 0"
proof -
  have "sentiments_loop module_TextBlob sample_sentiment_posts [] = []"
    by (simp add: sentiments_loop_as_written module_TextBlob_def)
  then show ?thesis by (simp add: sentiment_analysis_as_written)
qed

section \<open>Wrong top-level container\<close>

text \<open>
  Claim C5. An argument that is not a dictionary makes \<^verbatim>\<open>detect_abnormal_posting\<close> and
  \<^verbatim>\<open>analyze_network\<close> return the empty list, and an argument that is not a list makes
  \<^verbatim>\<open>detect_repeated_phrases\<close> return the empty list and \<^verbatim>\<open>sentiment_analysis\<close> return 0;
  no exception leaves the call (the result of \<^verbatim>\<open>analyze_network\<close> is \<open>Inr\<close>).
\<close>

theorem wrong_container_zero_value:
  "((\<forall>items. accounts \<noteq> VDict items) \<longrightarrow>
      detect_abnormal_posting parser accounts interval_threshold outlier_threshold_stddev = []
      \<and> analyze_network nx accounts cluster_threshold = Inr [])
   \<and> ((\<forall>ps. posts \<noteq> VList ps) \<longrightarrow>
      detect_repeated_phrases u posts repetition_threshold cleaning = []
      \<and> sentiment_analysis TextBlob posts = 0)"
  by (cases accounts; cases posts)
    (simp_all add: detect_abnormal_posting_def analyze_network_def detect_repeated_phrases_def
      sentiment_analysis_def)

theorem wrong_container_zero_value_witness:
  "detect_abnormal_posting module_parser (VList []) 30 2 = []
   \<and> analyze_network module_nx (VStr (py ''a'')) 20 = Inr []
   \<and> detect_repeated_phrases sample_unicode_lower (VDict []) 5 default_cleaning = []
   \<and> sentiment_analysis module_TextBlob VNone = 0"
  using wrong_container_zero_value [of "VList []" module_parser 30 2 module_nx 20 "VDict []"
      sample_unicode_lower 5 default_cleaning module_TextBlob]
    wrong_container_zero_value [of "VStr (py ''a'')" module_parser 30 2 module_nx 20 VNone
      sample_unicode_lower 5 default_cleaning module_TextBlob]
  by simp

section \<open>Facts about analyze\_network\<close>

text \<open>
  In the module as written the name \<^verbatim>\<open>nx\<close> is unbound, so every dictionary argument
  makes line 134 raise \<^verbatim>\<open>NameError\<close>, which no handler catches.
\<close>

lemma analyze_network_as_written:
  "analyze_network module_nx (VDict items) cluster_threshold = Inl NameError"
  by (simp add: analyze_network_def module_nx_def)

text \<open>
  Claim C3 says that \<^verbatim>\<open>analyze_network\<close> returns the node sets of the connected components
  larger than \<^verbatim>\<open>cluster_threshold\<close>. On the graph of the specification's scenario with
  threshold 2, where the claim gives the component of a, b and c, the module as written
  raises \<^verbatim>\<open>NameError\<close>.
\<close>

theorem analyze_network_raises_NameError:
  "analyze_network module_nx sample_network 2 = Inl NameError"
  by (simp add: analyze_network_def module_nx_def sample_network_def)

text \<open>
  Claim C8 says that a and b end in the same component whichever of the two lists the
  other. On both inputs the module as written raises \<^verbatim>\<open>NameError\<close> before any graph
  exists, so neither call yields a component.
\<close>

theorem analyze_network_no_graph:
  "analyze_network module_nx (VDict [(KStr (py ''a''), VList [VStr (py ''b'')])]) 1 = Inl NameError
   \<and> analyze_network module_nx (VDict [(KStr (py ''b''), VList [VStr (py ''a'')])]) 1 = Inl NameError"
  by (simp add: analyze_network_def module_nx_def)

end
